theory Spec2Isabelle
  imports Complex_Main
begin

section \<open>Data model of the cart routes\<close>

text \<open>
  The backend keeps two collections: products and users. A document is found by its
  ObjectId, a number of 96 bits that prints as 24 hexadecimal digits.

  A JavaScript Number is a rational here. Comparisons of Numbers are exact; the one
  arithmetic operation of the cart routes, the addition in \<^verbatim>\<open>POST /api/cart/add\<close>,
  rounds its result to double precision (\<open>js_add\<close> below). A stored quantity is a Number
  or \<^verbatim>\<open>null\<close>, which is \<open>None\<close>.
\<close>

type_synonym objectId = nat

record product =
  name :: string
  price :: rat
  stock :: rat

record cart_item =
  productId :: objectId
  quantity :: "rat option"

record user =
  username :: string
  cart :: "cart_item list"

record db =
  users :: "objectId \<rightharpoonup> user"
  products :: "objectId \<rightharpoonup> product"

text \<open>
  The \<^verbatim>\<open>quantity\<close> of a request body, as \<^verbatim>\<open>express.json()\<close> hands it to the route:
  absent, JSON \<^verbatim>\<open>null\<close>, or a number. A body whose quantity is a string, a boolean,
  an array or an object is not modelled.
\<close>

datatype jsvalue = Undefined | Null | Number rat

text \<open>\<^verbatim>\<open>null\<close> counts as 0 wherever JavaScript needs a number.\<close>

fun toNumber :: "rat option \<Rightarrow> rat" where
  "toNumber None = 0"
| "toNumber (Some x) = x"

text \<open>
  The four ways a cart route answers without the cart: status 400 with the validation
  message, 404, status 400 with the \<^verbatim>\<open>Insufficient stock\<close> message, and 500.
\<close>

datatype error = InvalidArgument | NotFound | InsufficientStock | Internal

fun status :: "error \<Rightarrow> nat" where
  "status InvalidArgument = 400"
| "status NotFound = 404"
| "status InsufficientStock = 400"
| "status Internal = 500"

subsection \<open>Double-precision addition\<close>

text \<open>
  \<open>round53\<close> rounds a positive number to 53 significant binary digits, to the nearest
  and on a tie to the even significand: it scales the number into \<open>[2^52, 2^53)\<close>, rounds
  there to an integer, and scales back. \<open>js_add\<close> is JavaScript's \<^verbatim>\<open>+\<close> on two
  Numbers whose sum stays below the largest double.
\<close>

definition round_half_even :: "rat \<Rightarrow> int" where
  "round_half_even x =
     (let n = \<lfloor>x\<rfloor>; r = x - of_int n
      in if r < 1 / 2 then n else if 1 / 2 < r then n + 1 else if even n then n else n + 1)"

function round53 :: "rat \<Rightarrow> rat" where
  "round53 x =
     (if x \<le> 0 then 0
      else if 2 ^ 53 \<le> x then 2 * round53 (x / 2)
      else if x < 2 ^ 52 then round53 (2 * x) / 2
      else of_int (round_half_even x))"
  by pat_completeness auto
termination
proof (relation "measure (\<lambda>x. if 2 ^ 53 \<le> x then nat \<lfloor>x\<rfloor>
                              else if 0 < x \<and> x < 2 ^ 52 then nat \<lceil>2 ^ 53 / x\<rceil> else 0)")
  show "wf (measure (\<lambda>x::rat. if 2 ^ 53 \<le> x then nat \<lfloor>x\<rfloor>
                              else if 0 < x \<and> x < 2 ^ 52 then nat \<lceil>2 ^ 53 / x\<rceil> else 0))"
    by simp
next
  fix x :: rat
  assume a: "\<not> x \<le> 0" "2 ^ 53 \<le> x"
  have "\<lfloor>x / 2\<rfloor> < \<lfloor>x\<rfloor>"
  proof -
    have "x / 2 \<le> x - 1" using a by simp
    then have "\<lfloor>x / 2\<rfloor> \<le> \<lfloor>x - 1\<rfloor>" by (rule floor_mono)
    then show ?thesis by simp
  qed
  moreover have "0 < \<lfloor>x\<rfloor>" using a by simp
  moreover have "\<not> x / 2 < 2 ^ 52" using a by simp
  ultimately show "(x / 2, x) \<in> measure (\<lambda>x. if 2 ^ 53 \<le> x then nat \<lfloor>x\<rfloor>
                              else if 0 < x \<and> x < 2 ^ 52 then nat \<lceil>2 ^ 53 / x\<rceil> else 0)"
    using a by auto
next
  fix x :: rat
  assume a: "\<not> x \<le> 0" "\<not> 2 ^ 53 \<le> x" "x < 2 ^ 52"
  have x0: "0 < x" using a by simp
  have big: "2 < 2 ^ 53 / x" using a x0 by (simp add: pos_less_divide_eq)
  have "\<lceil>2 ^ 53 / (2 * x)\<rceil> < \<lceil>2 ^ 53 / x\<rceil>"
  proof -
    have "2 ^ 53 / (2 * x) = (2 ^ 53 / x) / 2" by simp
    moreover have "(2 ^ 53 / x) / 2 \<le> 2 ^ 53 / x - 1" using big by simp
    ultimately have "\<lceil>2 ^ 53 / (2 * x)\<rceil> \<le> \<lceil>2 ^ 53 / x - 1\<rceil>"
      by (simp only: ceiling_mono)
    then show ?thesis by simp
  qed
  moreover have "0 < \<lceil>2 ^ 53 / x\<rceil>" using x0 by simp
  moreover have "\<not> 2 ^ 53 \<le> 2 * x" using a by simp
  moreover have "0 < 2 * x" using x0 by simp
  ultimately have "(if 2 ^ 53 \<le> 2 * x then nat \<lfloor>2 * x\<rfloor>
          else if 0 < 2 * x \<and> 2 * x < 2 ^ 52 then nat \<lceil>2 ^ 53 / (2 * x)\<rceil> else 0)
        < nat \<lceil>2 ^ 53 / x\<rceil>"
    by (simp only: if_False if_True simp_thms split: if_split) linarith
  moreover have "(if 2 ^ 53 \<le> x then nat \<lfloor>x\<rfloor>
          else if 0 < x \<and> x < 2 ^ 52 then nat \<lceil>2 ^ 53 / x\<rceil> else 0)
        = nat \<lceil>2 ^ 53 / x\<rceil>"
    using a x0 by (simp only: if_False if_True simp_thms)
  ultimately show "(2 * x, x) \<in> measure (\<lambda>x. if 2 ^ 53 \<le> x then nat \<lfloor>x\<rfloor>
                              else if 0 < x \<and> x < 2 ^ 52 then nat \<lceil>2 ^ 53 / x\<rceil> else 0)"
    by (simp only: in_measure)
qed

declare round53.simps [simp del]

definition double_round :: "rat \<Rightarrow> rat" where
  "double_round x = (if x < 0 then - round53 (- x) else round53 x)"

definition js_add :: "rat \<Rightarrow> rat \<Rightarrow> rat" where
  "js_add a b = double_round (a + b)"

subsection \<open>Object ids in a request\<close>

text \<open>
  The add route reads the product id from the body as a string. Mongoose casts a string
  of 24 hexadecimal digits, in either case, to the ObjectId it denotes
  (\<^verbatim>\<open>Product.findById(productId)\<close>, \<^verbatim>\<open>user.cart.push({ productId, quantity })\<close>);
  any other string is taken to be a CastError. An ObjectId prints as its 24 digits in lower
  case, so
  \<^verbatim>\<open>item.productId.toString() === productId\<close> holds exactly when the string is 24
  lower-case hexadecimal digits that denote the line's id.
\<close>

definition hex_digit :: "char \<Rightarrow> nat option" where
  "hex_digit c =
     map_of [(CHR ''0'', 0), (CHR ''1'', 1), (CHR ''2'', 2), (CHR ''3'', 3), (CHR ''4'', 4),
             (CHR ''5'', 5), (CHR ''6'', 6), (CHR ''7'', 7), (CHR ''8'', 8), (CHR ''9'', 9),
             (CHR ''a'', 10), (CHR ''b'', 11), (CHR ''c'', 12), (CHR ''d'', 13),
             (CHR ''e'', 14), (CHR ''f'', 15),
             (CHR ''A'', 10), (CHR ''B'', 11), (CHR ''C'', 12), (CHR ''D'', 13),
             (CHR ''E'', 14), (CHR ''F'', 15)] c"

definition castObjectId :: "string \<Rightarrow> objectId option" where
  "castObjectId s =
     (if length s = 24 \<and> list_all (\<lambda>c. hex_digit c \<noteq> None) s
      then Some (foldl (\<lambda>a c. 16 * a + the (hex_digit c)) 0 s)
      else None)"

definition lower_case_hex :: "string \<Rightarrow> bool" where
  "lower_case_hex s = list_all (\<lambda>c. c \<in> set ''0123456789abcdef'') s"

definition toString_equals :: "objectId \<Rightarrow> string \<Rightarrow> bool" where
  "toString_equals oid s \<longleftrightarrow> lower_case_hex s \<and> castObjectId s = Some oid"

subsection \<open>Populating, validating, saving\<close>

text \<open>
  \<^verbatim>\<open>populate('cart.productId')\<close> replaces each line's product id by the product
  document it refers to, or by null when the product is gone from the collection.
\<close>

record populated_item =
  productDoc :: "(objectId \<times> product) option"
  itemQuantity :: "rat option"

definition populate :: "db \<Rightarrow> cart_item list \<Rightarrow> populated_item list" where
  "populate d c =
     map (\<lambda>item. \<lparr>productDoc = map_option (Pair (productId item)) (products d (productId item)),
                  itemQuantity = quantity item\<rparr>) c"

text \<open>
  \<^verbatim>\<open>user.save()\<close> validates the document against \<^verbatim>\<open>userSchema\<close> before it writes:
  the cart's \<^verbatim>\<open>quantity\<close> path is a Number with \<^verbatim>\<open>min: 1\<close>, a validator that lets
  \<^verbatim>\<open>null\<close> pass. A failed validation throws, the handler's \<^verbatim>\<open>catch\<close> answers 500, and
  nothing is written.
\<close>

definition validate_cart :: "cart_item list \<Rightarrow> bool" where
  "validate_cart c =
     list_all (\<lambda>item. case quantity item of None \<Rightarrow> True | Some x \<Rightarrow> 1 \<le> x) c"

definition save :: "db \<Rightarrow> objectId \<Rightarrow> user \<Rightarrow> error + db" where
  "save d uid u =
     (if validate_cart (cart u) then Inr (d\<lparr>users := (users d)(uid \<mapsto> u)\<rparr>)
      else Inl Internal)"

text \<open>
  The common tail of the mutating routes:
  \<^verbatim>\<open>await user.save(); await user.populate('cart.productId'); res.json(user.cart)\<close>.
\<close>

definition save_and_respond ::
  "db \<Rightarrow> objectId \<Rightarrow> user \<Rightarrow> cart_item list \<Rightarrow> (error + populated_item list) \<times> db" where
  "save_and_respond d uid u c =
     (case save d uid (u\<lparr>cart := c\<rparr>) of
        Inl e \<Rightarrow> (Inl e, d)
      | Inr d' \<Rightarrow> (Inr (populate d' c), d'))"

section \<open>The routes\<close>

text \<open>\<^verbatim>\<open>GET /api/cart\<close>: reads, never writes.\<close>

definition getCart :: "db \<Rightarrow> objectId \<Rightarrow> error + populated_item list" where
  "getCart d uid =
     (case users d uid of
        None \<Rightarrow> Inl NotFound
      | Some u \<Rightarrow> Inr (populate d (cart u)))"

text \<open>
  \<^verbatim>\<open>POST /api/cart/add\<close>. The callback of \<^verbatim>\<open>user.cart.map\<close> compares each line's
  printed id with the request's string; on a match it sets \<^verbatim>\<open>itemFound\<close>, throws when
  the stock is below \<^verbatim>\<open>item.quantity + quantity\<close>, and otherwise stores that sum in
  the line. The flag is the second component of the result.
\<close>

fun add_items ::
  "string \<Rightarrow> rat \<Rightarrow> product \<Rightarrow> cart_item list \<Rightarrow> error + (cart_item list \<times> bool)" where
  "add_items raw q p [] = Inr ([], False)"
| "add_items raw q p (item # rest) =
     (if toString_equals (productId item) raw then
        (if stock p < js_add (toNumber (quantity item)) q then Inl InsufficientStock
         else (case add_items raw q p rest of
                 Inl e \<Rightarrow> Inl e
               | Inr (rest', itemFound) \<Rightarrow>
                   Inr (item\<lparr>quantity := Some (js_add (toNumber (quantity item)) q)\<rparr> # rest',
                        True)))
      else (case add_items raw q p rest of
              Inl e \<Rightarrow> Inl e
            | Inr (rest', itemFound) \<Rightarrow> Inr (item # rest', itemFound)))"

text \<open>
  The guard \<^verbatim>\<open>!productId || quantity === undefined || quantity <= 0\<close> refuses a missing
  or empty product id, a missing quantity, \<^verbatim>\<open>null\<close> (which compares as 0) and every
  number that is not positive. A product id that does not cast makes
  \<^verbatim>\<open>Product.findById\<close> throw, which the \<^verbatim>\<open>catch\<close> answers with 500.
\<close>

definition addToCart ::
  "db \<Rightarrow> objectId \<Rightarrow> string option \<Rightarrow> jsvalue \<Rightarrow> (error + populated_item list) \<times> db" where
  "addToCart d uid productId_opt quantity_val =
     (case productId_opt of
        None \<Rightarrow> (Inl InvalidArgument, d)
      | Some raw \<Rightarrow>
          if raw = [] then (Inl InvalidArgument, d)
          else
     (case quantity_val of
        Undefined \<Rightarrow> (Inl InvalidArgument, d)
      | Null \<Rightarrow> (Inl InvalidArgument, d)
      | Number q \<Rightarrow>
          if q \<le> 0 then (Inl InvalidArgument, d)
          else
     (case users d uid of
        None \<Rightarrow> (Inl NotFound, d)
      | Some u \<Rightarrow>
     (case castObjectId raw of
        None \<Rightarrow> (Inl Internal, d)
      | Some pid \<Rightarrow>
     (case products d pid of
        None \<Rightarrow> (Inl NotFound, d)
      | Some p \<Rightarrow>
     (case add_items raw q p (cart u) of
        Inl e \<Rightarrow> (Inl e, d)
      | Inr (c, itemFound) \<Rightarrow>
          if itemFound then save_and_respond d uid u c
          else if stock p < q then (Inl InsufficientStock, d)
          else save_and_respond d uid u (c @ [\<lparr>productId = pid, quantity = Some q\<rparr>])))))))"

text \<open>
  \<^verbatim>\<open>PUT /api/cart/update/:productId\<close>. \<^verbatim>\<open>findIndex\<close> answers the first index
  whose line matches, \<open>None\<close> for the source's \<^verbatim>\<open>-1\<close>; \<^verbatim>\<open>splice(i, 1)\<close> drops
  the line at index \<open>i\<close>.
\<close>

fun findIndex :: "('a \<Rightarrow> bool) \<Rightarrow> 'a list \<Rightarrow> nat option" where
  "findIndex P [] = None"
| "findIndex P (x # xs) = (if P x then Some 0 else map_option Suc (findIndex P xs))"

definition splice1 :: "nat \<Rightarrow> 'a list \<Rightarrow> 'a list" where
  "splice1 i xs = take i xs @ drop (Suc i) xs"

text \<open>
  The body of the update route for a quantity that is present: \<open>n\<close> is the number the
  comparisons \<^verbatim>\<open>quantity < 0\<close> and \<^verbatim>\<open>product.stock < quantity\<close> see, \<open>v\<close> the value
  that \<^verbatim>\<open>quantity === 0\<close> tests and that is stored in the line.
\<close>

definition update_line ::
  "db \<Rightarrow> objectId \<Rightarrow> objectId \<Rightarrow> rat \<Rightarrow> rat option \<Rightarrow> (error + populated_item list) \<times> db" where
  "update_line d uid pid n v =
     (if n < 0 then (Inl InvalidArgument, d)
      else
     (case users d uid of
        None \<Rightarrow> (Inl NotFound, d)
      | Some u \<Rightarrow>
     (case findIndex (\<lambda>item. productId item = pid) (cart u) of
        None \<Rightarrow> (Inl NotFound, d)
      | Some itemIndex \<Rightarrow>
     (case products d pid of
        None \<Rightarrow> (Inl NotFound, d)
      | Some p \<Rightarrow>
          if v = Some 0 then save_and_respond d uid u (splice1 itemIndex (cart u))
          else if stock p < n then (Inl InsufficientStock, d)
          else save_and_respond d uid u
                 ((cart u)[itemIndex := (cart u ! itemIndex)\<lparr>quantity := v\<rparr>])))))"

definition updateQuantity ::
  "db \<Rightarrow> objectId \<Rightarrow> objectId \<Rightarrow> jsvalue \<Rightarrow> (error + populated_item list) \<times> db" where
  "updateQuantity d uid pid quantity_val =
     (case quantity_val of
        Undefined \<Rightarrow> (Inl InvalidArgument, d)
      | Null \<Rightarrow> update_line d uid pid 0 None
      | Number q \<Rightarrow> update_line d uid pid q (Some q))"

text \<open>\<^verbatim>\<open>DELETE /api/cart/remove/:productId\<close>: filters every line of the product out.\<close>

definition removeFromCart ::
  "db \<Rightarrow> objectId \<Rightarrow> objectId \<Rightarrow> (error + populated_item list) \<times> db" where
  "removeFromCart d uid pid =
     (case users d uid of
        None \<Rightarrow> (Inl NotFound, d)
      | Some u \<Rightarrow>
          save_and_respond d uid u (filter (\<lambda>item. productId item \<noteq> pid) (cart u)))"

text \<open>\<^verbatim>\<open>DELETE /api/cart/clear\<close>: answers a message, not the cart.\<close>

definition clearCart :: "db \<Rightarrow> objectId \<Rightarrow> (error + string) \<times> db" where
  "clearCart d uid =
     (case users d uid of
        None \<Rightarrow> (Inl NotFound, d)
      | Some u \<Rightarrow>
     (case save d uid (u\<lparr>cart := []\<rparr>) of
        Inl e \<Rightarrow> (Inl e, d)
      | Inr d' \<Rightarrow> (Inr ''Cart cleared successfully!'', d')))"

text \<open>
  The router: one request of the authenticated user \<open>uid\<close>, and the database it leaves.
\<close>

datatype request =
    GetCart
  | AddToCart "string option" jsvalue
  | UpdateQuantity objectId jsvalue
  | RemoveFromCart objectId
  | ClearCart

fun perform :: "db \<Rightarrow> objectId \<Rightarrow> request \<Rightarrow> db" where
  "perform d uid GetCart = d"
| "perform d uid (AddToCart productId_opt quantity_val) =
     snd (addToCart d uid productId_opt quantity_val)"
| "perform d uid (UpdateQuantity pid quantity_val) = snd (updateQuantity d uid pid quantity_val)"
| "perform d uid (RemoveFromCart pid) = snd (removeFromCart d uid pid)"
| "perform d uid ClearCart = snd (clearCart d uid)"

section \<open>Predicates of the specification\<close>

text \<open>A quantity is an integer when it equals its floor, as \<^verbatim>\<open>Number.isInteger\<close> decides.\<close>

definition isInteger :: "rat \<Rightarrow> bool" where
  "isInteger q \<longleftrightarrow> of_int \<lfloor>q\<rfloor> = q"

text \<open>Every stored cart passes the schema: each quantity is null or at least 1.\<close>

definition db_valid :: "db \<Rightarrow> bool" where
  "db_valid d = (\<forall>u \<in> ran (users d). validate_cart (cart u))"

text \<open>Every stored quantity that is a number is an integer.\<close>

definition cart_integral :: "cart_item list \<Rightarrow> bool" where
  "cart_integral c =
     list_all (\<lambda>item. case quantity item of None \<Rightarrow> True | Some x \<Rightarrow> isInteger x) c"

definition db_integral :: "db \<Rightarrow> bool" where
  "db_integral d = (\<forall>u \<in> ran (users d). cart_integral (cart u))"

fun request_integral :: "request \<Rightarrow> bool" where
  "request_integral (AddToCart productId_opt (Number q)) = isInteger q"
| "request_integral (UpdateQuantity pid (Number q)) = isInteger q"
| "request_integral r = True"

text \<open>The invariant in the specification's words: every stored quantity is a positive integer.\<close>

definition positive_integer_quantities :: "db \<Rightarrow> bool" where
  "positive_integer_quantities d =
     (\<forall>u \<in> ran (users d).
        list_all (\<lambda>item. case quantity item of
                           None \<Rightarrow> False
                         | Some x \<Rightarrow> 0 < x \<and> isInteger x) (cart u))"

section \<open>A concrete shop\<close>

text \<open>
  User 7 with the cart \<open>c\<close>, and one product, 10, of which \<open>depot s c\<close> has \<open>s\<close> in
  stock and \<open>shop c\<close> five; \<open>lamp q\<close> is the populated line of the shop's product. The
  product's id prints as \<open>lamp_id\<close>; \<open>lamp_alias\<close> is the same id in upper case. In
  \<open>orphaned\<close> the product has been deleted while the cart still holds a line for it.
\<close>

definition depot :: "rat \<Rightarrow> cart_item list \<Rightarrow> db" where
  "depot s c = \<lparr>users = [7 \<mapsto> \<lparr>username = ''alice'', cart = c\<rparr>],
                products = [10 \<mapsto> \<lparr>name = ''Lamp'', price = 20, stock = s\<rparr>]\<rparr>"

definition shop :: "cart_item list \<Rightarrow> db" where
  "shop c = \<lparr>users = [7 \<mapsto> \<lparr>username = ''alice'', cart = c\<rparr>],
             products = [10 \<mapsto> \<lparr>name = ''Lamp'', price = 20, stock = 5\<rparr>]\<rparr>"

definition lamp :: "rat \<Rightarrow> populated_item" where
  "lamp q = \<lparr>productDoc = Some (10, \<lparr>name = ''Lamp'', price = 20, stock = 5\<rparr>),
             itemQuantity = Some q\<rparr>"

definition lamp_id :: string where
  "lamp_id = ''00000000000000000000000a''"

definition lamp_alias :: string where
  "lamp_alias = ''00000000000000000000000A''"

definition orphaned :: db where
  "orphaned = \<lparr>users = [7 \<mapsto> \<lparr>username = ''alice'',
                                 cart = [\<lparr>productId = 10, quantity = Some 3\<rparr>]\<rparr>],
               products = Map.empty\<rparr>"

section \<open>Lemmas about the route helpers\<close>

subsection \<open>Integers and double rounding\<close>

lemma isInteger_iff: "isInteger x \<longleftrightarrow> (\<exists>n. x = of_int n)"
  by (simp add: isInteger_def)

lemma isInteger_numeral: "isInteger (numeral n)"
  by (simp add: isInteger_def)

lemma isInteger_double: "isInteger x \<Longrightarrow> isInteger (2 * x)"
  unfolding isInteger_iff by (metis of_int_mult of_int_numeral)

lemma isInteger_minus: "isInteger x \<Longrightarrow> isInteger (- x)"
  unfolding isInteger_iff by (metis of_int_minus)

lemma isInteger_add: "isInteger a \<Longrightarrow> isInteger b \<Longrightarrow> isInteger (a + b)"
  unfolding isInteger_iff by (metis of_int_add)

lemma integer_ge1:
  assumes "isInteger q" "0 < q" shows "1 \<le> q"
proof -
  obtain k :: int where k: "q = of_int k"
    using assms(1) unfolding isInteger_iff by blast
  from assms(2) have "0 < k" unfolding k by simp
  then have "1 \<le> k" by simp
  then show ?thesis unfolding k by simp
qed

lemma floor_rat_numeral_divide:
  "\<lfloor>numeral a / numeral b :: rat\<rfloor> = numeral a div numeral b"
  using floor_divide_of_int_eq [of "numeral a" "numeral b", where ?'a = rat] by simp

lemma not_integer_three_halves: "\<not> isInteger (3 / 2)"
  by (simp add: isInteger_def floor_rat_numeral_divide)

lemma round_half_even_of_int: "round_half_even (of_int n) = n"
  by (simp add: round_half_even_def)

lemma round53_safe_integer:
  "isInteger x \<Longrightarrow> 0 \<le> x \<Longrightarrow> x \<le> 2 ^ 53 \<Longrightarrow> round53 x = x"
proof (induction x rule: round53.induct)
  case (1 x)
  consider (zero) "x \<le> 0" | (top) "0 < x" "2 ^ 53 \<le> x"
    | (small) "0 < x" "x < 2 ^ 52" | (mid) "2 ^ 52 \<le> x" "x < 2 ^ 53"
    by linarith
  then show ?case
  proof cases
    case zero
    with "1.prems" have "x = 0" by simp
    then show ?thesis by (simp add: round53.simps)
  next
    case top
    with "1.prems" have x: "x = 2 ^ 53" by simp
    have "round53 (2 ^ 52) = 2 ^ 52"
      by (simp add: round53.simps round_half_even_def)
    then show ?thesis unfolding x by (simp add: round53.simps [of "9007199254740992"])
  next
    case small
    have "round53 (2 * x) = 2 * x"
      using small "1.prems" by (intro "1.IH"(2)) (simp_all add: isInteger_double)
    with small show ?thesis by (simp add: round53.simps [of x])
  next
    case mid
    from "1.prems"(1) obtain n where n: "x = of_int n" unfolding isInteger_iff by blast
    from mid show ?thesis
      by (simp add: round53.simps [of x]) (simp add: n round_half_even_of_int)
  qed
qed

lemma round53_large_integer: "2 ^ 52 \<le> x \<Longrightarrow> isInteger (round53 x)"
proof (induction x rule: round53.induct)
  case (1 x)
  show ?case
  proof (cases "2 ^ 53 \<le> x")
    case True
    with "1.prems" have "isInteger (round53 (x / 2))" by (intro "1.IH"(1)) simp_all
    then have "isInteger (2 * round53 (x / 2))" by (rule isInteger_double)
    with True "1.prems" show ?thesis by (simp add: round53.simps [of x])
  next
    case False
    with "1.prems" show ?thesis by (simp add: round53.simps [of x] isInteger_def)
  qed
qed

lemma round53_integer: "isInteger x \<Longrightarrow> 0 \<le> x \<Longrightarrow> isInteger (round53 x)"
  by (cases "x \<le> 2 ^ 53") (simp_all add: round53_safe_integer round53_large_integer)

lemma double_round_integer:
  assumes "isInteger x"
  shows "isInteger (double_round x)"
proof (cases "x < 0")
  case True
  from assms have "isInteger (- x)" by (rule isInteger_minus)
  with True have "isInteger (round53 (- x))" by (simp add: round53_integer)
  then have "isInteger (- round53 (- x))" by (rule isInteger_minus)
  with True show ?thesis by (simp add: double_round_def)
next
  case False
  with assms show ?thesis by (simp add: double_round_def round53_integer)
qed

lemma js_add_exact:
  assumes "isInteger a" and "isInteger b" and "0 \<le> a + b" and "a + b \<le> 2 ^ 53"
  shows "js_add a b = a + b"
proof -
  have "isInteger (a + b)" using assms(1,2) by (rule isInteger_add)
  then have "round53 (a + b) = a + b" using assms(3,4) by (rule round53_safe_integer)
  with assms(3) show ?thesis by (simp add: js_add_def double_round_def)
qed

lemma js_add_integer: "isInteger a \<Longrightarrow> isInteger b \<Longrightarrow> isInteger (js_add a b)"
  by (simp add: js_add_def double_round_integer isInteger_add)

lemma js_add_past_2_53: "js_add 9007199254740992 1 = 9007199254740992"
  by (simp add: js_add_def double_round_def round53.simps round_half_even_def
        floor_rat_numeral_divide)

subsection \<open>Request ids\<close>

lemma toString_equals_canonical:
  "lower_case_hex raw \<Longrightarrow> castObjectId raw = Some pid \<Longrightarrow>
   toString_equals oid raw \<longleftrightarrow> oid = pid"
  by (auto simp: toString_equals_def)

lemma hex_digit_zero: "hex_digit CHR ''0'' = Some 0"
  by (simp add: hex_digit_def)

lemma hex_digit_a: "hex_digit CHR ''a'' = Some 10"
  by (simp add: hex_digit_def)

lemma hex_digit_A: "hex_digit CHR ''A'' = Some 10"
  by (simp add: hex_digit_def)

lemma cast_lamp_id: "castObjectId lamp_id = Some 10"
  by (simp add: castObjectId_def lamp_id_def hex_digit_zero hex_digit_a)

lemma cast_lamp_alias: "castObjectId lamp_alias = Some 10"
  by (simp add: castObjectId_def lamp_alias_def hex_digit_zero hex_digit_A)

lemma lamp_id_lower_case: "lower_case_hex lamp_id"
  by (simp add: lower_case_hex_def lamp_id_def)

lemma lamp_alias_upper_case: "\<not> lower_case_hex lamp_alias"
  by (simp add: lower_case_hex_def lamp_alias_def)

lemma lamp_id_nonempty: "lamp_id \<noteq> []"
  by (simp add: lamp_id_def)

lemma lamp_alias_nonempty: "lamp_alias \<noteq> []"
  by (simp add: lamp_alias_def)

lemma toString_equals_lamp_id: "toString_equals oid lamp_id \<longleftrightarrow> oid = 10"
  using lamp_id_lower_case cast_lamp_id by (rule toString_equals_canonical)

lemma toString_equals_lamp_alias: "\<not> toString_equals oid lamp_alias"
  by (simp add: toString_equals_def lamp_alias_upper_case)

subsection \<open>The add route's map\<close>

lemma cast_nonempty: "castObjectId raw = Some pid \<Longrightarrow> raw \<noteq> []"
  by (auto simp: castObjectId_def split: if_splits)

lemma add_items_within:
  assumes "lower_case_hex raw" and "castObjectId raw = Some pid"
    and "\<forall>item\<in>set c. productId item = pid \<longrightarrow>
           \<not> stock p < js_add (toNumber (quantity item)) q"
  shows "add_items raw q p c =
           Inr (map (\<lambda>item. if productId item = pid
                             then item\<lparr>quantity := Some (js_add (toNumber (quantity item)) q)\<rparr>
                             else item) c,
                pid \<in> productId ` set c)"
  using assms(3) by (induction c) (auto simp: toString_equals_canonical [OF assms(1,2)])

lemma add_items_absent:
  assumes "lower_case_hex raw" and "castObjectId raw = Some pid"
    and "pid \<notin> productId ` set c"
  shows "add_items raw q p c = Inr (c, False)"
  using assms(3) by (induction c) (auto simp: toString_equals_canonical [OF assms(1,2)])

lemma add_items_exceeds:
  assumes "lower_case_hex raw" and "castObjectId raw = Some pid"
    and "\<exists>item\<in>set c. productId item = pid \<and> stock p < js_add (toNumber (quantity item)) q"
  shows "add_items raw q p c = Inl InsufficientStock"
  using assms(3)
proof (induction c)
  case Nil
  then show ?case by simp
next
  case (Cons a c)
  show ?case
  proof (cases "productId a = pid \<and> stock p < js_add (toNumber (quantity a)) q")
    case True
    then show ?thesis by (simp add: toString_equals_canonical [OF assms(1,2)])
  next
    case False
    with Cons.prems
    have "\<exists>item\<in>set c. productId item = pid \<and> stock p < js_add (toNumber (quantity item)) q"
      by auto
    then have "add_items raw q p c = Inl InsufficientStock" by (rule Cons.IH)
    then show ?thesis by simp
  qed
qed

lemma add_items_result:
  "add_items raw q p c = Inr (c', f) \<Longrightarrow>
     c' = map (\<lambda>item. if toString_equals (productId item) raw
                       then item\<lparr>quantity := Some (js_add (toNumber (quantity item)) q)\<rparr>
                       else item) c"
  by (induction c arbitrary: c' f) (auto split: if_splits sum.splits)

subsection \<open>The update route's index\<close>

lemma findIndex_None: "findIndex P xs = None \<longleftrightarrow> (\<forall>x\<in>set xs. \<not> P x)"
  by (induction xs) auto

lemma findIndex_Some:
  "findIndex P xs = Some i \<Longrightarrow> i < length xs \<and> P (xs ! i) \<and> (\<forall>j<i. \<not> P (xs ! j))"
proof (induction xs arbitrary: i)
  case Nil
  then show ?case by simp
next
  case (Cons x xs)
  show ?case
  proof (cases "P x")
    case True
    with Cons.prems show ?thesis by simp
  next
    case False
    with Cons.prems obtain k where k: "findIndex P xs = Some k" "i = Suc k" by auto
    from Cons.IH[OF k(1)] False k(2) show ?thesis
      by (auto simp: nth_Cons split: nat.splits)
  qed
qed

lemma findIndex_present:
  assumes "pid \<in> productId ` set c"
  obtains i where "findIndex (\<lambda>item. productId item = pid) c = Some i"
proof -
  from assms have "findIndex (\<lambda>item. productId item = pid) c \<noteq> None"
    by (auto simp: findIndex_None)
  then show ?thesis using that by auto
qed

lemma splice1_filter:
  "distinct (map f xs) \<Longrightarrow> findIndex (\<lambda>x. f x = k) xs = Some i \<Longrightarrow>
   splice1 i xs = filter (\<lambda>x. f x \<noteq> k) xs"
proof (induction xs arbitrary: i)
  case Nil
  then show ?case by simp
next
  case (Cons x xs)
  show ?case
  proof (cases "f x = k")
    case True
    with Cons.prems have "i = 0" by simp
    moreover have "f x \<notin> f ` set xs" using Cons.prems(1) by simp
    then have "\<forall>y\<in>set xs. f y \<noteq> k" using True by (metis imageI)
    ultimately show ?thesis using True by (simp add: splice1_def)
  next
    case False
    with Cons.prems obtain j where j: "findIndex (\<lambda>x. f x = k) xs = Some j" "i = Suc j" by auto
    from Cons.prems have "distinct (map f xs)" by simp
    from Cons.IH[OF this j(1)] False j(2) show ?thesis by (simp add: splice1_def)
  qed
qed

subsection \<open>Validation and saving\<close>

lemma validate_cart_filter: "validate_cart c \<Longrightarrow> validate_cart (filter P c)"
  by (induction c) (auto simp: validate_cart_def)

lemma validate_cart_splice1: "validate_cart c \<Longrightarrow> validate_cart (splice1 i c)"
  unfolding validate_cart_def splice1_def list_all_iff
  by (auto dest: in_set_takeD in_set_dropD)

lemma validate_cart_update:
  "validate_cart c \<Longrightarrow> 1 \<le> q \<Longrightarrow> validate_cart (c[i := (c ! i)\<lparr>quantity := Some q\<rparr>])"
  unfolding validate_cart_def list_all_iff
  by (auto dest!: set_update_subset_insert[THEN subsetD])

lemma validate_cart_nonneg:
  "validate_cart c \<Longrightarrow> item \<in> set c \<Longrightarrow> 0 \<le> toNumber (quantity item)"
  by (cases "quantity item") (auto simp: validate_cart_def list_all_iff)

lemma validate_cart_raise:
  "validate_cart c \<Longrightarrow> 1 \<le> q \<Longrightarrow>
   validate_cart (map (\<lambda>item. if productId item = pid
                       then item\<lparr>quantity := Some (toNumber (quantity item) + q)\<rparr>
                       else item) c)"
proof (induction c)
  case Nil
  then show ?case by (simp add: validate_cart_def)
next
  case (Cons a c)
  from Cons.prems(1) have "0 \<le> toNumber (quantity a)"
    by (rule validate_cart_nonneg) simp
  with Cons show ?case by (auto simp: validate_cart_def)
qed

lemma populate_users [simp]: "populate (d\<lparr>users := us\<rparr>) c = populate d c"
  by (simp add: populate_def)

lemma save_and_respond_valid:
  "validate_cart c \<Longrightarrow>
   save_and_respond d uid u c = (Inr (populate d c), d\<lparr>users := (users d)(uid \<mapsto> u\<lparr>cart := c\<rparr>)\<rparr>)"
  by (simp add: save_and_respond_def save_def)

lemma save_and_respond_failure:
  "save_and_respond d uid u c = (Inl e, d') \<Longrightarrow> d' = d"
  by (auto simp: save_and_respond_def split: sum.splits)

lemma update_line_failure: "update_line d uid pid n v = (Inl e, d') \<Longrightarrow> d' = d"
  by (auto simp: update_line_def split: option.splits if_splits
           dest: save_and_respond_failure)

lemma save_valid: "db_valid d \<Longrightarrow> save d uid u = Inr d' \<Longrightarrow> db_valid d'"
  by (force simp: save_def db_valid_def ran_def split: if_splits)

lemma save_and_respond_db_valid:
  "db_valid d \<Longrightarrow> db_valid (snd (save_and_respond d uid u c))"
  by (auto simp: save_and_respond_def split: sum.splits dest: save_valid)

lemma addToCart_valid: "db_valid d \<Longrightarrow> db_valid (snd (addToCart d uid po qv))"
  by (auto simp: addToCart_def save_and_respond_db_valid
           split: option.splits sum.splits jsvalue.splits)

lemma update_line_valid: "db_valid d \<Longrightarrow> db_valid (snd (update_line d uid pid n v))"
  by (auto simp: update_line_def save_and_respond_db_valid split: option.splits)

lemma updateQuantity_valid: "db_valid d \<Longrightarrow> db_valid (snd (updateQuantity d uid pid qv))"
  by (auto simp: updateQuantity_def update_line_valid split: jsvalue.splits)

lemma removeFromCart_valid: "db_valid d \<Longrightarrow> db_valid (snd (removeFromCart d uid pid))"
  by (auto simp: removeFromCart_def save_and_respond_db_valid split: option.splits)

lemma clearCart_valid: "db_valid d \<Longrightarrow> db_valid (snd (clearCart d uid))"
  by (auto simp: clearCart_def split: option.splits sum.splits dest: save_valid)

lemma db_valid_no_zero:
  "db_valid d \<Longrightarrow> u \<in> ran (users d) \<Longrightarrow> item \<in> set (cart u) \<Longrightarrow> quantity item \<noteq> Some 0"
  by (force simp: db_valid_def validate_cart_def list_all_iff)

subsection \<open>Integral quantities\<close>

lemma cart_integral_raise:
  "cart_integral c \<Longrightarrow> isInteger q \<Longrightarrow>
   cart_integral (map (\<lambda>item. if toString_equals (productId item) raw
                       then item\<lparr>quantity := Some (js_add (toNumber (quantity item)) q)\<rparr>
                       else item) c)"
proof (induction c)
  case Nil
  then show ?case by (simp add: cart_integral_def)
next
  case (Cons a c)
  from Cons.prems(1) have "isInteger (toNumber (quantity a))"
    by (cases "quantity a") (auto simp: cart_integral_def isInteger_def)
  then have "isInteger (js_add (toNumber (quantity a)) q)"
    using Cons.prems(2) by (rule js_add_integer)
  with Cons show ?case by (auto simp: cart_integral_def)
qed

lemma cart_integral_filter: "cart_integral c \<Longrightarrow> cart_integral (filter P c)"
  by (induction c) (auto simp: cart_integral_def)

lemma cart_integral_splice1: "cart_integral c \<Longrightarrow> cart_integral (splice1 i c)"
  unfolding cart_integral_def splice1_def list_all_iff
  by (auto dest: in_set_takeD in_set_dropD)

lemma cart_integral_update:
  "cart_integral c \<Longrightarrow> (case v of None \<Rightarrow> True | Some x \<Rightarrow> isInteger x) \<Longrightarrow>
   cart_integral (c[i := (c ! i)\<lparr>quantity := v\<rparr>])"
  unfolding cart_integral_def list_all_iff
  by (auto dest!: set_update_subset_insert[THEN subsetD])

lemma db_integral_user: "db_integral d \<Longrightarrow> users d uid = Some u \<Longrightarrow> cart_integral (cart u)"
  by (auto simp: db_integral_def ran_def)

lemma save_integral:
  "db_integral d \<Longrightarrow> cart_integral (cart u) \<Longrightarrow> save d uid u = Inr d' \<Longrightarrow> db_integral d'"
  by (force simp: save_def db_integral_def ran_def split: if_splits)

lemma save_and_respond_integral:
  assumes "db_integral d" and "cart_integral c"
  shows "db_integral (snd (save_and_respond d uid u c))"
proof (cases "save d uid (u\<lparr>cart := c\<rparr>)")
  case (Inl e)
  with assms(1) show ?thesis by (simp add: save_and_respond_def)
next
  case (Inr d')
  have "cart_integral (cart (u\<lparr>cart := c\<rparr>))" using assms(2) by simp
  with assms(1) have "db_integral d'" using Inr by (rule save_integral)
  with Inr show ?thesis by (simp add: save_and_respond_def)
qed

lemma addToCart_integral:
  assumes "db_integral d" and "\<And>q. qv = Number q \<Longrightarrow> isInteger q"
  shows "db_integral (snd (addToCart d uid po qv))"
proof (cases "\<exists>raw q u pid p. po = Some raw \<and> raw \<noteq> [] \<and> qv = Number q \<and> 0 < q
                \<and> users d uid = Some u \<and> castObjectId raw = Some pid
                \<and> products d pid = Some p")
  case False
  then show ?thesis using assms(1)
    by (auto simp: addToCart_def split: option.splits jsvalue.splits)
next
  case True
  then obtain raw q u pid p where h: "po = Some raw" "raw \<noteq> []" "qv = Number q" "0 < q"
    "users d uid = Some u" "castObjectId raw = Some pid" "products d pid = Some p" by blast
  have cu: "cart_integral (cart u)" using assms(1) h(5) by (rule db_integral_user)
  have iq: "isInteger q" using h(3) by (rule assms(2))
  show ?thesis
  proof (cases "add_items raw q p (cart u)")
    case (Inl e)
    with h assms(1) show ?thesis by (simp add: addToCart_def)
  next
    case (Inr r)
    obtain c f where r: "r = (c, f)" by (cases r)
    from Inr r have c: "c = map (\<lambda>item. if toString_equals (productId item) raw
                       then item\<lparr>quantity := Some (js_add (toNumber (quantity item)) q)\<rparr>
                       else item) (cart u)"
      by (simp add: add_items_result)
    have ci: "cart_integral c" unfolding c using cu iq by (rule cart_integral_raise)
    then have ci2: "cart_integral (c @ [\<lparr>productId = pid, quantity = Some q\<rparr>])"
      using iq by (simp add: cart_integral_def)
    from h Inr r assms(1) ci ci2 show ?thesis
      by (simp add: addToCart_def save_and_respond_integral)
  qed
qed

lemma update_line_integral:
  assumes "db_integral d" and "case v of None \<Rightarrow> True | Some x \<Rightarrow> isInteger x"
  shows "db_integral (snd (update_line d uid pid n v))"
proof (cases "users d uid")
  case None
  with assms(1) show ?thesis by (simp add: update_line_def)
next
  case (Some u)
  have cu: "cart_integral (cart u)" using assms(1) Some by (rule db_integral_user)
  from Some assms cu show ?thesis
    by (auto simp: update_line_def save_and_respond_integral cart_integral_splice1
                   cart_integral_update split: option.splits)
qed

lemma updateQuantity_integral:
  assumes "db_integral d" and "\<And>q. qv = Number q \<Longrightarrow> isInteger q"
  shows "db_integral (snd (updateQuantity d uid pid qv))"
  using assms by (cases qv) (simp_all add: updateQuantity_def update_line_integral)

lemma removeFromCart_integral:
  assumes "db_integral d"
  shows "db_integral (snd (removeFromCart d uid pid))"
proof (cases "users d uid")
  case None
  with assms show ?thesis by (simp add: removeFromCart_def)
next
  case (Some u)
  with assms have "cart_integral (cart u)" by (rule db_integral_user)
  then have "cart_integral (filter (\<lambda>item. productId item \<noteq> pid) (cart u))"
    by (rule cart_integral_filter)
  with assms Some show ?thesis by (simp add: removeFromCart_def save_and_respond_integral)
qed

lemma clearCart_integral: "db_integral d \<Longrightarrow> db_integral (snd (clearCart d uid))"
  by (auto simp: clearCart_def cart_integral_def split: option.splits sum.splits
           dest: save_integral[rotated 2])

subsection \<open>The concrete shop\<close>

lemma shop_user: "users (shop c) 7 = Some \<lparr>username = ''alice'', cart = c\<rparr>"
  by (simp add: shop_def)

lemma shop_product: "products (shop c) 10 = Some \<lparr>name = ''Lamp'', price = 20, stock = 5\<rparr>"
  by (simp add: shop_def)

lemma shop_update:
  "(shop c)\<lparr>users := (users (shop c))(7 \<mapsto> \<lparr>username = ''alice'', cart = c'\<rparr>)\<rparr> = shop c'"
  by (simp add: shop_def)

lemma shop_valid: "db_valid (shop c) = validate_cart c"
  by (simp add: db_valid_def shop_def)

lemma shop_integral: "db_integral (shop c) = cart_integral c"
  by (simp add: db_integral_def shop_def)

lemma populate_shop_nil: "populate (shop c) [] = []"
  by (simp add: populate_def)

lemma populate_shop_lamp: "populate (shop c) [\<lparr>productId = 10, quantity = Some q\<rparr>] = [lamp q]"
  by (simp add: populate_def shop_def lamp_def)

lemma getCart_shop_nil: "getCart (shop []) 7 = Inr []"
  by (simp add: getCart_def shop_def populate_def)

lemma orphaned_user:
  "users orphaned 7
     = Some \<lparr>username = ''alice'', cart = [\<lparr>productId = 10, quantity = Some 3\<rparr>]\<rparr>"
  by (simp add: orphaned_def)

lemma orphaned_product: "products orphaned 10 = None"
  by (simp add: orphaned_def)

section \<open>Adding to the cart\<close>

text \<open>
  C1. The total that decides is the one the handler computes, and the line that counts is
  the one whose printed id equals the request's string. With a line of \<open>2^53\<close> and a
  stock of \<open>2^53\<close>, adding 1 gives the double \<open>2^53\<close>, which does not exceed the stock:
  the call succeeds although the exact total does. With a line of 3, a stock of 5 and the
  product's id written in upper case, adding 3 finds no line and appends a second one of
  3, although the product's total is then 6.
\<close>

theorem addToCart_total_not_refused:
  "addToCart (depot 9007199254740992 [\<lparr>productId = 10, quantity = Some 9007199254740992\<rparr>])
       7 (Some lamp_id) (Number 1)
     = (Inr [\<lparr>productDoc = Some (10, \<lparr>name = ''Lamp'', price = 20, stock = 9007199254740992\<rparr>),
              itemQuantity = Some 9007199254740992\<rparr>],
        depot 9007199254740992 [\<lparr>productId = 10, quantity = Some 9007199254740992\<rparr>])
   \<and> (9007199254740992 :: rat) < 9007199254740992 + 1
   \<and> addToCart (shop [\<lparr>productId = 10, quantity = Some 3\<rparr>]) 7 (Some lamp_alias) (Number 3)
     = (Inr [lamp 3, lamp 3],
        shop [\<lparr>productId = 10, quantity = Some 3\<rparr>, \<lparr>productId = 10, quantity = Some 3\<rparr>])
   \<and> (5 :: rat) < 3 + 3"
  by (simp add: addToCart_def lamp_id_nonempty lamp_alias_nonempty cast_lamp_id cast_lamp_alias
        toString_equals_lamp_id toString_equals_lamp_alias js_add_past_2_53
        save_and_respond_def save_def validate_cart_def populate_def
        depot_def shop_def lamp_def)

text \<open>
  C1, amended. For an existing user, an existing product named by its id as the server
  prints it (24 lower-case hexadecimal digits) and a requested quantity \<open>q > 0\<close>: when,
  for some line of the product in the user's cart, the double-precision sum of the line's
  quantity and \<open>q\<close> exceeds the stock, or when the cart has no line of the product and
  \<open>q\<close> alone exceeds the stock, \<open>addToCart\<close> answers \<open>InsufficientStock\<close> and the
  database, so the stored cart, is the one before the call. For integers whose total is at
  most \<open>2^53\<close> the double-precision sum is the exact total.
\<close>

theorem addToCart_insufficient_stock:
  assumes "users d uid = Some u"
    and "lower_case_hex raw" and "castObjectId raw = Some pid"
    and "products d pid = Some p" and "0 < q"
    and "(\<exists>item\<in>set (cart u). productId item = pid
            \<and> stock p < js_add (toNumber (quantity item)) q)
         \<or> (pid \<notin> productId ` set (cart u) \<and> stock p < q)"
  shows "addToCart d uid (Some raw) (Number q) = (Inl InsufficientStock, d)
       \<and> (\<forall>e. isInteger e \<and> isInteger q \<and> 0 \<le> e \<and> e + q \<le> 2 ^ 53 \<longrightarrow> js_add e q = e + q)"
proof
  have ne: "raw \<noteq> []" using assms(3) by (rule cast_nonempty)
  from assms(6) show "addToCart d uid (Some raw) (Number q) = (Inl InsufficientStock, d)"
  proof
    assume "\<exists>item\<in>set (cart u). productId item = pid
              \<and> stock p < js_add (toNumber (quantity item)) q"
    with assms(2,3) have "add_items raw q p (cart u) = Inl InsufficientStock"
      by (rule add_items_exceeds)
    with assms(1,3,4,5) ne show ?thesis by (simp add: addToCart_def)
  next
    assume a: "pid \<notin> productId ` set (cart u) \<and> stock p < q"
    with assms(2,3) have "add_items raw q p (cart u) = Inr (cart u, False)"
      by (simp add: add_items_absent)
    with assms(1,3,4,5) ne a show ?thesis by (simp add: addToCart_def)
  qed
next
  from assms(5) show "\<forall>e. isInteger e \<and> isInteger q \<and> 0 \<le> e \<and> e + q \<le> 2 ^ 53
                        \<longrightarrow> js_add e q = e + q"
    by (simp add: js_add_exact)
qed

theorem addToCart_insufficient_stock_witness:
  "addToCart (shop [\<lparr>productId = 10, quantity = Some 3\<rparr>]) 7 (Some lamp_id) (Number 3)
     = (Inl InsufficientStock, shop [\<lparr>productId = 10, quantity = Some 3\<rparr>])
   \<and> addToCart (shop []) 7 (Some lamp_id) (Number 6) = (Inl InsufficientStock, shop [])
   \<and> js_add 3 3 = 3 + 3"
proof -
  have i3: "isInteger 3" by (simp add: isInteger_def)
  have s: "js_add 3 3 = 6" using js_add_exact [OF i3 i3] by simp
  have a: "addToCart (shop [\<lparr>productId = 10, quantity = Some 3\<rparr>]) 7 (Some lamp_id) (Number 3)
             = (Inl InsufficientStock, shop [\<lparr>productId = 10, quantity = Some 3\<rparr>])
           \<and> (\<forall>e. isInteger e \<and> isInteger 3 \<and> 0 \<le> e \<and> e + 3 \<le> 2 ^ 53 \<longrightarrow> js_add e 3 = e + 3)"
    by (rule addToCart_insufficient_stock
              [OF shop_user lamp_id_lower_case cast_lamp_id shop_product])
       (simp_all add: s)
  have b: "addToCart (shop []) 7 (Some lamp_id) (Number 6) = (Inl InsufficientStock, shop [])
           \<and> (\<forall>e. isInteger e \<and> isInteger 6 \<and> 0 \<le> e \<and> e + 6 \<le> 2 ^ 53 \<longrightarrow> js_add e 6 = e + 6)"
    by (rule addToCart_insufficient_stock
              [OF shop_user lamp_id_lower_case cast_lamp_id shop_product])
       simp_all
  from a i3 have "js_add 3 3 = 3 + 3" by simp
  with a b show ?thesis by blast
qed

text \<open>
  C2. With a line of 3 and the product's id written in upper case, adding 2 does not raise
  the line to 5: no printed id equals the string, and a second line of 2 is appended. With
  a line of \<open>2^53\<close> and a stock of \<open>2^54\<close>, adding 1 stores the double \<open>2^53\<close>, not
  \<open>2^53 + 1\<close>.
\<close>

theorem addToCart_not_additive:
  "addToCart (shop [\<lparr>productId = 10, quantity = Some 3\<rparr>]) 7 (Some lamp_alias) (Number 2)
     = (Inr [lamp 3, lamp 2],
        shop [\<lparr>productId = 10, quantity = Some 3\<rparr>, \<lparr>productId = 10, quantity = Some 2\<rparr>])
   \<and> addToCart (depot 18014398509481984 [\<lparr>productId = 10, quantity = Some 9007199254740992\<rparr>])
       7 (Some lamp_id) (Number 1)
     = (Inr [\<lparr>productDoc = Some (10, \<lparr>name = ''Lamp'', price = 20, stock = 18014398509481984\<rparr>),
              itemQuantity = Some 9007199254740992\<rparr>],
        depot 18014398509481984 [\<lparr>productId = 10, quantity = Some 9007199254740992\<rparr>])
   \<and> (9007199254740992 :: rat) \<noteq> 9007199254740992 + 1"
  by (simp add: addToCart_def lamp_id_nonempty lamp_alias_nonempty cast_lamp_id cast_lamp_alias
        toString_equals_lamp_id toString_equals_lamp_alias js_add_past_2_53
        save_and_respond_def save_def validate_cart_def populate_def
        depot_def shop_def lamp_def)

text \<open>
  C2, amended. For an existing user whose stored cart passes the schema, an existing
  product named by its id as the server prints it, and an integer quantity \<open>q > 0\<close>, where
  each line of the product holds an integer \<open>e\<close> (null counting as 0) with \<open>e + q\<close> at
  most \<open>2^53\<close> and within the stock, and \<open>q\<close> is within the stock when the cart has no
  line of the product: \<open>addToCart\<close> succeeds, answers the populated new cart and stores it.
  The new cart raises the line of the product from \<open>e\<close> to \<open>e + q\<close> and leaves every
  other line as it was; when the cart had no line of the product, it is the old cart
  followed by the one new line \<open>(pid, q)\<close>. On an empty cart the result is that single
  line.
\<close>

theorem addToCart_additive:
  assumes "users d uid = Some u" and "validate_cart (cart u)"
    and "lower_case_hex raw" and "castObjectId raw = Some pid"
    and "products d pid = Some p" and "isInteger q" and "0 < q"
    and "\<forall>item\<in>set (cart u). productId item = pid \<longrightarrow>
           isInteger (toNumber (quantity item))
           \<and> toNumber (quantity item) + q \<le> 2 ^ 53
           \<and> toNumber (quantity item) + q \<le> stock p"
    and "pid \<notin> productId ` set (cart u) \<longrightarrow> q \<le> stock p"
  shows "let c' = (if pid \<in> productId ` set (cart u)
                   then map (\<lambda>item. if productId item = pid
                                     then item\<lparr>quantity := Some (toNumber (quantity item) + q)\<rparr>
                                     else item) (cart u)
                   else cart u @ [\<lparr>productId = pid, quantity = Some q\<rparr>])
         in addToCart d uid (Some raw) (Number q)
              = (Inr (populate d c'), d\<lparr>users := (users d)(uid \<mapsto> u\<lparr>cart := c'\<rparr>)\<rparr>)
            \<and> (cart u = [] \<longrightarrow> c' = [\<lparr>productId = pid, quantity = Some q\<rparr>])"
proof -
  let ?sum = "map (\<lambda>item. if productId item = pid
                           then item\<lparr>quantity := Some (js_add (toNumber (quantity item)) q)\<rparr>
                           else item) (cart u)"
  let ?raised = "map (\<lambda>item. if productId item = pid
                              then item\<lparr>quantity := Some (toNumber (quantity item) + q)\<rparr>
                              else item) (cart u)"
  have ne: "raw \<noteq> []" using assms(4) by (rule cast_nonempty)
  have q1: "1 \<le> q" using assms(6,7) by (rule integer_ge1)
  have exact: "js_add (toNumber (quantity item)) q = toNumber (quantity item) + q"
    if "item \<in> set (cart u)" and "productId item = pid" for item
  proof -
    from assms(8) that have h: "isInteger (toNumber (quantity item))"
      "toNumber (quantity item) + q \<le> 2 ^ 53" by auto
    have "0 \<le> toNumber (quantity item)" using assms(2) that(1) by (rule validate_cart_nonneg)
    with assms(7) have "0 \<le> toNumber (quantity item) + q" by simp
    with h(1) assms(6) show ?thesis using h(2) by (rule js_add_exact)
  qed
  then have same_sum: "?sum = ?raised" by (intro map_cong) auto
  have "\<forall>item\<in>set (cart u). productId item = pid \<longrightarrow>
          \<not> stock p < js_add (toNumber (quantity item)) q"
    using assms(8) exact by fastforce
  with assms(3,4)
  have items: "add_items raw q p (cart u) = Inr (?sum, pid \<in> productId ` set (cart u))"
    by (rule add_items_within)
  have v1: "validate_cart ?raised" using assms(2) q1 by (rule validate_cart_raise)
  show ?thesis
  proof (cases "pid \<in> productId ` set (cart u)")
    case True
    with assms(1,4,5,7) ne items v1 same_sum show ?thesis
      by (auto simp: addToCart_def save_and_respond_valid)
  next
    case False
    then have same: "?raised = cart u" by (intro map_idI) auto
    have v2: "validate_cart (cart u @ [\<lparr>productId = pid, quantity = Some q\<rparr>])"
      using assms(2) q1 by (simp add: validate_cart_def)
    from False assms(9) have "\<not> stock p < q" by simp
    with False assms(1,4,5,7) ne items v2 same same_sum show ?thesis
      by (simp add: addToCart_def save_and_respond_valid)
  qed
qed

theorem addToCart_additive_witness:
  "addToCart (shop [\<lparr>productId = 10, quantity = Some 3\<rparr>]) 7 (Some lamp_id) (Number 2)
     = (Inr [lamp 5], shop [\<lparr>productId = 10, quantity = Some 5\<rparr>])
   \<and> addToCart (shop []) 7 (Some lamp_id) (Number 2)
     = (Inr [lamp 2], shop [\<lparr>productId = 10, quantity = Some 2\<rparr>])"
proof -
  have i2: "isInteger 2" by (simp add: isInteger_def)
  have a: "addToCart (shop [\<lparr>productId = 10, quantity = Some 3\<rparr>]) 7 (Some lamp_id) (Number 2)
     = (Inr [lamp 5], shop [\<lparr>productId = 10, quantity = Some 5\<rparr>])"
    using addToCart_additive
            [OF shop_user _ lamp_id_lower_case cast_lamp_id shop_product i2,
             of "[\<lparr>productId = 10, quantity = Some 3\<rparr>]"]
    by (simp add: validate_cart_def isInteger_def shop_update populate_shop_lamp)
  have b: "addToCart (shop []) 7 (Some lamp_id) (Number 2)
     = (Inr [lamp 2], shop [\<lparr>productId = 10, quantity = Some 2\<rparr>])"
    using addToCart_additive
            [OF shop_user _ lamp_id_lower_case cast_lamp_id shop_product i2, of "[]"]
    by (simp add: validate_cart_def shop_update populate_shop_lamp)
  from a b show ?thesis by simp
qed

section \<open>The scenario of the specification\<close>

text \<open>
  C8. The product has five in stock and the cart starts empty. Adding 3 succeeds with the
  cart \<open>[(10, 3)]\<close>; adding 3 again answers \<open>InsufficientStock\<close> and leaves the cart
  \<open>[(10, 3)]\<close>; updating to 5 succeeds with \<open>[(10, 5)]\<close>; updating to 0 succeeds with
  the empty cart.
\<close>

theorem stock_five_scenario:
  "addToCart (shop []) 7 (Some lamp_id) (Number 3)
     = (Inr [lamp 3], shop [\<lparr>productId = 10, quantity = Some 3\<rparr>])
   \<and> addToCart (shop [\<lparr>productId = 10, quantity = Some 3\<rparr>]) 7 (Some lamp_id) (Number 3)
     = (Inl InsufficientStock, shop [\<lparr>productId = 10, quantity = Some 3\<rparr>])
   \<and> updateQuantity (shop [\<lparr>productId = 10, quantity = Some 3\<rparr>]) 7 10 (Number 5)
     = (Inr [lamp 5], shop [\<lparr>productId = 10, quantity = Some 5\<rparr>])
   \<and> updateQuantity (shop [\<lparr>productId = 10, quantity = Some 5\<rparr>]) 7 10 (Number 0)
     = (Inr [], shop [])"
proof -
  have "isInteger 3" by (simp add: isInteger_def)
  then have "js_add 3 3 = 3 + 3" by (intro js_add_exact) simp_all
  then have s: "js_add 3 3 = 6" by simp
  show ?thesis
    by (simp add: addToCart_def updateQuantity_def update_line_def lamp_id_nonempty cast_lamp_id
          toString_equals_lamp_id s save_and_respond_def save_def validate_cart_def
          populate_def splice1_def shop_def lamp_def)
qed

section \<open>Updating a quantity\<close>

text \<open>
  C3. For an existing user and a requested quantity \<open>q \<ge> 0\<close>: \<open>updateQuantity\<close>
  answers \<open>NotFound\<close> when the cart has no line of the product. When the line exists, the
  product exists and \<open>q > 0\<close>, it answers \<open>InsufficientStock\<close> if \<open>q\<close> exceeds the
  stock; otherwise (for an integer \<open>q\<close> and a stored cart that passes the schema) it sets
  the quantity of the first line of the product to exactly \<open>q\<close>, whatever it was, leaves
  every other line as it was, answers the populated new cart and stores it. Whenever the
  call fails, for any requested quantity, the database is the one before the call.
\<close>

theorem updateQuantity_absolute:
  assumes "users d uid = Some u" and "0 \<le> q"
  shows "(pid \<notin> productId ` set (cart u) \<longrightarrow>
            updateQuantity d uid pid (Number q) = (Inl NotFound, d))
       \<and> (\<forall>p. pid \<in> productId ` set (cart u) \<and> products d pid = Some p \<and> 0 < q \<and> stock p < q \<longrightarrow>
            updateQuantity d uid pid (Number q) = (Inl InsufficientStock, d))
       \<and> (\<forall>p. pid \<in> productId ` set (cart u) \<and> products d pid = Some p \<and> 0 < q \<and> q \<le> stock p
              \<and> isInteger q \<and> validate_cart (cart u) \<longrightarrow>
            (\<exists>i<length (cart u). productId (cart u ! i) = pid
               \<and> (\<forall>j<i. productId (cart u ! j) \<noteq> pid)
               \<and> updateQuantity d uid pid (Number q)
                   = (Inr (populate d ((cart u)[i := (cart u ! i)\<lparr>quantity := Some q\<rparr>])),
                      d\<lparr>users := (users d)
                           (uid \<mapsto> u\<lparr>cart := (cart u)[i := (cart u ! i)\<lparr>quantity := Some q\<rparr>]\<rparr>)\<rparr>)))
       \<and> (\<forall>quantity_val e d'. updateQuantity d uid pid quantity_val = (Inl e, d') \<longrightarrow> d' = d)"
proof (intro conjI allI impI)
  assume "pid \<notin> productId ` set (cart u)"
  then have "findIndex (\<lambda>item. productId item = pid) (cart u) = None"
    by (auto simp: findIndex_None)
  with assms show "updateQuantity d uid pid (Number q) = (Inl NotFound, d)"
    by (simp add: updateQuantity_def update_line_def)
next
  fix p
  assume a: "pid \<in> productId ` set (cart u) \<and> products d pid = Some p \<and> 0 < q \<and> stock p < q"
  then have "pid \<in> productId ` set (cart u)" by simp
  then obtain i where "findIndex (\<lambda>item. productId item = pid) (cart u) = Some i"
    by (rule findIndex_present)
  with assms a show "updateQuantity d uid pid (Number q) = (Inl InsufficientStock, d)"
    by (simp add: updateQuantity_def update_line_def)
next
  fix p
  assume a: "pid \<in> productId ` set (cart u) \<and> products d pid = Some p \<and> 0 < q \<and> q \<le> stock p
              \<and> isInteger q \<and> validate_cart (cart u)"
  then have "pid \<in> productId ` set (cart u)" by simp
  then obtain i where i: "findIndex (\<lambda>item. productId item = pid) (cart u) = Some i"
    by (rule findIndex_present)
  note first = findIndex_Some[OF i]
  from a have "1 \<le> q" by (simp add: integer_ge1)
  with a have "validate_cart ((cart u)[i := (cart u ! i)\<lparr>quantity := Some q\<rparr>])"
    by (simp add: validate_cart_update)
  with assms a i have "updateQuantity d uid pid (Number q)
       = (Inr (populate d ((cart u)[i := (cart u ! i)\<lparr>quantity := Some q\<rparr>])),
          d\<lparr>users := (users d)
               (uid \<mapsto> u\<lparr>cart := (cart u)[i := (cart u ! i)\<lparr>quantity := Some q\<rparr>]\<rparr>)\<rparr>)"
    by (simp add: updateQuantity_def update_line_def save_and_respond_valid)
  with first show "\<exists>i<length (cart u). productId (cart u ! i) = pid
               \<and> (\<forall>j<i. productId (cart u ! j) \<noteq> pid)
               \<and> updateQuantity d uid pid (Number q)
                   = (Inr (populate d ((cart u)[i := (cart u ! i)\<lparr>quantity := Some q\<rparr>])),
                      d\<lparr>users := (users d)
                           (uid \<mapsto> u\<lparr>cart := (cart u)[i := (cart u ! i)\<lparr>quantity := Some q\<rparr>]\<rparr>)\<rparr>)"
    by blast
next
  fix quantity_val e d'
  assume "updateQuantity d uid pid quantity_val = (Inl e, d')"
  then show "d' = d"
    by (cases quantity_val) (auto simp: updateQuantity_def dest: update_line_failure)
qed

theorem updateQuantity_absolute_witness:
  "updateQuantity (shop [\<lparr>productId = 10, quantity = Some 3\<rparr>]) 7 11 (Number 5)
     = (Inl NotFound, shop [\<lparr>productId = 10, quantity = Some 3\<rparr>])
   \<and> updateQuantity (shop [\<lparr>productId = 10, quantity = Some 3\<rparr>]) 7 10 (Number 6)
     = (Inl InsufficientStock, shop [\<lparr>productId = 10, quantity = Some 3\<rparr>])
   \<and> updateQuantity (shop [\<lparr>productId = 10, quantity = Some 3\<rparr>]) 7 10 (Number 5)
     = (Inr [lamp 5], shop [\<lparr>productId = 10, quantity = Some 5\<rparr>])"
proof -
  let ?c = "[\<lparr>productId = 10, quantity = Some 3\<rparr>]"
  have i5: "isInteger 5" by (simp add: isInteger_def)
  have a: "updateQuantity (shop ?c) 7 11 (Number 5) = (Inl NotFound, shop ?c)"
    using updateQuantity_absolute [OF shop_user, of 5 11 ?c] by simp
  have b: "updateQuantity (shop ?c) 7 10 (Number 6) = (Inl InsufficientStock, shop ?c)"
    using updateQuantity_absolute [OF shop_user, of 6 10 ?c] by (simp add: shop_product)
  have c: "updateQuantity (shop ?c) 7 10 (Number 5)
             = (Inr [lamp 5], shop [\<lparr>productId = 10, quantity = Some 5\<rparr>])"
    using updateQuantity_absolute [OF shop_user, of 5 10 ?c] i5
    by (simp add: shop_product validate_cart_def shop_update populate_shop_lamp)
  from a b c show ?thesis by simp
qed

text \<open>
  C9. When the user's cart has a line of the product but the product is gone from the
  product collection, \<open>updateQuantity\<close> answers \<open>NotFound\<close> for every quantity
  \<open>q \<ge> 0\<close>, zero included, and the database is the one before the call: the line stays.
\<close>

theorem updateQuantity_missing_product:
  assumes "users d uid = Some u" and "pid \<in> productId ` set (cart u)"
    and "products d pid = None" and "0 \<le> q"
  shows "updateQuantity d uid pid (Number q) = (Inl NotFound, d)"
proof -
  from assms(2) obtain i where "findIndex (\<lambda>item. productId item = pid) (cart u) = Some i"
    by (rule findIndex_present)
  with assms show ?thesis by (simp add: updateQuantity_def update_line_def)
qed

theorem updateQuantity_missing_product_witness:
  "updateQuantity orphaned 7 10 (Number 4) = (Inl NotFound, orphaned)
   \<and> updateQuantity orphaned 7 10 (Number 0) = (Inl NotFound, orphaned)"
proof -
  have l: "10 \<in> productId `
             set (cart \<lparr>username = ''alice'', cart = [\<lparr>productId = 10, quantity = Some 3\<rparr>]\<rparr>)"
    by simp
  have a: "updateQuantity orphaned 7 10 (Number 4) = (Inl NotFound, orphaned)"
    by (rule updateQuantity_missing_product [OF orphaned_user l orphaned_product]) simp
  have b: "updateQuantity orphaned 7 10 (Number 0) = (Inl NotFound, orphaned)"
    by (rule updateQuantity_missing_product [OF orphaned_user l orphaned_product]) simp
  from a b show ?thesis by simp
qed

text \<open>
  C10. A missing quantity, or a quantity \<open>q < 0\<close>, makes \<open>updateQuantity\<close> answer
  \<open>InvalidArgument\<close> whatever the database holds, so before any user or cart is looked
  up, and the database is the one before the call.
\<close>

theorem updateQuantity_invalid:
  "updateQuantity d uid pid Undefined = (Inl InvalidArgument, d)
   \<and> (q < 0 \<longrightarrow> updateQuantity d uid pid (Number q) = (Inl InvalidArgument, d))"
  by (simp add: updateQuantity_def update_line_def)

theorem updateQuantity_invalid_witness:
  "(- 1 :: rat) < 0
   \<and> updateQuantity (shop [\<lparr>productId = 10, quantity = Some 3\<rparr>]) 7 10 (Number (- 1))
     = (Inl InvalidArgument, shop [\<lparr>productId = 10, quantity = Some 3\<rparr>])"
  using updateQuantity_invalid [of "shop [\<lparr>productId = 10, quantity = Some 3\<rparr>]" 7 10 "- 1"]
  by simp

section \<open>Removing lines\<close>

text \<open>
  C5. A request whose quantity is zero is not a removal when the product is gone from the
  product collection: the cart holds the line, \<open>updateQuantity\<close> answers \<open>NotFound\<close>
  and keeps it, \<open>removeFromCart\<close> succeeds and drops it.
\<close>

theorem updateQuantity_zero_orphaned:
  "users orphaned 7
     = Some \<lparr>username = ''alice'', cart = [\<lparr>productId = 10, quantity = Some 3\<rparr>]\<rparr>
   \<and> updateQuantity orphaned 7 10 (Number 0) = (Inl NotFound, orphaned)
   \<and> removeFromCart orphaned 7 10
       = (Inr [], orphaned\<lparr>users := [7 \<mapsto> \<lparr>username = ''alice'', cart = []\<rparr>]\<rparr>)"
  by (simp add: updateQuantity_def update_line_def removeFromCart_def save_and_respond_def
        save_def validate_cart_def populate_def orphaned_def)

text \<open>
  C5, amended. For an existing user whose stored cart passes the schema and holds at most
  one line per product, and a product that exists in the product collection and has a line
  in the cart: \<open>updateQuantity\<close> with quantity 0 and \<open>removeFromCart\<close> give the same
  answer and the same database. Both succeed, the stored cart is the old one without the
  line of the product, every other line as it was, and \<open>getCart\<close> afterwards answers
  that cart, in which no line shows the product.
\<close>

theorem updateQuantity_zero_removes:
  assumes "users d uid = Some u" and "validate_cart (cart u)"
    and "distinct (map productId (cart u))"
    and "pid \<in> productId ` set (cart u)" and "products d pid = Some p"
  shows "updateQuantity d uid pid (Number 0) = removeFromCart d uid pid
       \<and> removeFromCart d uid pid
           = (Inr (populate d (filter (\<lambda>item. productId item \<noteq> pid) (cart u))),
              d\<lparr>users := (users d)
                   (uid \<mapsto> u\<lparr>cart := filter (\<lambda>item. productId item \<noteq> pid) (cart u)\<rparr>)\<rparr>)
       \<and> getCart (snd (updateQuantity d uid pid (Number 0))) uid
           = Inr (populate d (filter (\<lambda>item. productId item \<noteq> pid) (cart u)))
       \<and> (\<forall>line\<in>set (populate d (filter (\<lambda>item. productId item \<noteq> pid) (cart u))).
             \<forall>doc. productDoc line \<noteq> Some (pid, doc))"
proof -
  let ?c = "filter (\<lambda>item. productId item \<noteq> pid) (cart u)"
  let ?d = "d\<lparr>users := (users d)(uid \<mapsto> u\<lparr>cart := ?c\<rparr>)\<rparr>"
  have v: "validate_cart ?c" using assms(2) by (rule validate_cart_filter)
  from assms(4) obtain i where i: "findIndex (\<lambda>item. productId item = pid) (cart u) = Some i"
    by (rule findIndex_present)
  have sp: "splice1 i (cart u) = ?c" using assms(3) i by (rule splice1_filter)
  have rem: "removeFromCart d uid pid = (Inr (populate d ?c), ?d)"
    using assms(1) v by (simp add: removeFromCart_def save_and_respond_valid)
  have upd: "updateQuantity d uid pid (Number 0) = (Inr (populate d ?c), ?d)"
    using assms(1,5) i sp v
    by (simp add: updateQuantity_def update_line_def save_and_respond_valid)
  have get: "getCart ?d uid = Inr (populate d ?c)" by (simp add: getCart_def)
  have unlisted: "\<forall>line\<in>set (populate d ?c). \<forall>doc. productDoc line \<noteq> Some (pid, doc)"
    by (auto simp: populate_def)
  from rem upd get unlisted show ?thesis by simp
qed

theorem updateQuantity_zero_removes_witness:
  "updateQuantity (shop [\<lparr>productId = 10, quantity = Some 3\<rparr>]) 7 10 (Number 0)
     = (Inr [], shop [])
   \<and> removeFromCart (shop [\<lparr>productId = 10, quantity = Some 3\<rparr>]) 7 10 = (Inr [], shop [])
   \<and> getCart (snd (updateQuantity (shop [\<lparr>productId = 10, quantity = Some 3\<rparr>]) 7 10 (Number 0))) 7
       = Inr []"
  using updateQuantity_zero_removes
          [OF shop_user _ _ _ shop_product, of "[\<lparr>productId = 10, quantity = Some 3\<rparr>]"]
  by (simp add: validate_cart_def shop_update populate_shop_nil getCart_shop_nil)

text \<open>
  C6. For an existing user whose stored cart passes the schema, \<open>removeFromCart\<close>
  succeeds: it answers the populated new cart and stores it, the new cart being the old one
  without the lines of the product and every other line as it was. When the cart has no
  line of the product the call succeeds all the same, with the cart and the database
  unchanged. Removing a second time gives the same answer and the same database as
  removing once.
\<close>

theorem removeFromCart_idempotent:
  assumes "users d uid = Some u" and "validate_cart (cart u)"
  shows "removeFromCart d uid pid
           = (Inr (populate d (filter (\<lambda>item. productId item \<noteq> pid) (cart u))),
              d\<lparr>users := (users d)
                   (uid \<mapsto> u\<lparr>cart := filter (\<lambda>item. productId item \<noteq> pid) (cart u)\<rparr>)\<rparr>)
       \<and> (pid \<notin> productId ` set (cart u) \<longrightarrow>
            removeFromCart d uid pid = (Inr (populate d (cart u)), d))
       \<and> removeFromCart (snd (removeFromCart d uid pid)) uid pid = removeFromCart d uid pid"
proof -
  let ?c = "filter (\<lambda>item. productId item \<noteq> pid) (cart u)"
  let ?d = "d\<lparr>users := (users d)(uid \<mapsto> u\<lparr>cart := ?c\<rparr>)\<rparr>"
  have v: "validate_cart ?c" using assms(2) by (rule validate_cart_filter)
  have once: "removeFromCart d uid pid = (Inr (populate d ?c), ?d)"
    using assms(1) v by (simp add: removeFromCart_def save_and_respond_valid)
  have noop: "removeFromCart d uid pid = (Inr (populate d (cart u)), d)"
    if "pid \<notin> productId ` set (cart u)"
  proof -
    from that have "?c = cart u" by (auto simp: filter_id_conv)
    moreover have "(users d)(uid \<mapsto> u) = users d" using assms(1) by (rule map_upd_triv)
    ultimately show ?thesis using once by simp
  qed
  have twice: "removeFromCart ?d uid pid = (Inr (populate d ?c), ?d)"
    using v by (simp add: removeFromCart_def save_and_respond_valid)
  from once noop twice show ?thesis by simp
qed

theorem removeFromCart_idempotent_witness:
  "removeFromCart (shop [\<lparr>productId = 10, quantity = Some 3\<rparr>]) 7 10 = (Inr [], shop [])
   \<and> removeFromCart (shop [\<lparr>productId = 10, quantity = Some 3\<rparr>]) 7 11
       = (Inr [lamp 3], shop [\<lparr>productId = 10, quantity = Some 3\<rparr>])
   \<and> removeFromCart (snd (removeFromCart (shop [\<lparr>productId = 10, quantity = Some 3\<rparr>]) 7 10)) 7 10
       = removeFromCart (shop [\<lparr>productId = 10, quantity = Some 3\<rparr>]) 7 10"
proof -
  let ?c = "[\<lparr>productId = 10, quantity = Some 3\<rparr>]"
  have v: "validate_cart (cart \<lparr>username = ''alice'', cart = ?c\<rparr>)"
    by (simp add: validate_cart_def)
  note a = removeFromCart_idempotent [OF shop_user v, of 10]
  note b = removeFromCart_idempotent [OF shop_user v, of 11]
  have a1: "removeFromCart (shop ?c) 7 10 = (Inr [], shop [])"
    using a by (simp add: shop_update populate_shop_nil)
  have a2: "removeFromCart (snd (removeFromCart (shop ?c) 7 10)) 7 10
              = removeFromCart (shop ?c) 7 10"
    using a by blast
  have b1: "removeFromCart (shop ?c) 7 11 = (Inr [lamp 3], shop ?c)"
    using b by (simp add: shop_update populate_shop_lamp)
  from a1 a2 b1 show ?thesis by blast
qed

text \<open>
  C7. For an existing user, whatever the cart held, \<open>clearCart\<close> succeeds with its
  confirmation message and stores the empty cart, and \<open>getCart\<close> on the database it
  leaves answers the empty list.
\<close>

theorem clearCart_empties:
  assumes "users d uid = Some u"
  shows "clearCart d uid
           = (Inr ''Cart cleared successfully!'', d\<lparr>users := (users d)(uid \<mapsto> u\<lparr>cart := []\<rparr>)\<rparr>)
       \<and> getCart (snd (clearCart d uid)) uid = Inr []"
  using assms by (simp add: clearCart_def save_def validate_cart_def getCart_def populate_def)

theorem clearCart_empties_witness:
  "clearCart (shop [\<lparr>productId = 10, quantity = Some 3\<rparr>]) 7
     = (Inr ''Cart cleared successfully!'', shop [])
   \<and> getCart (snd (clearCart (shop [\<lparr>productId = 10, quantity = Some 3\<rparr>]) 7)) 7 = Inr []"
  using clearCart_empties [OF shop_user, of "[\<lparr>productId = 10, quantity = Some 3\<rparr>]"]
  by (simp add: shop_update getCart_shop_nil)

section \<open>The invariant of stored quantities\<close>

text \<open>
  C4. The handlers reject a quantity that is not positive, and the schema a number below
  1, but nothing rejects a fraction, and the update route lets \<^verbatim>\<open>null\<close> through. On the
  empty cart, where every stored quantity is a positive integer, adding the quantity 3/2 of
  a product with five in stock stores the line \<open>(10, 3/2)\<close>. On the cart \<open>[(10, 3)]\<close>,
  updating the line with the quantity \<^verbatim>\<open>null\<close> stores \<open>(10, null)\<close>.
\<close>

theorem fractional_quantity_stored:
  "positive_integer_quantities (shop [])
   \<and> perform (shop []) 7 (AddToCart (Some lamp_id) (Number (3 / 2)))
       = shop [\<lparr>productId = 10, quantity = Some (3 / 2)\<rparr>]
   \<and> \<not> positive_integer_quantities (shop [\<lparr>productId = 10, quantity = Some (3 / 2)\<rparr>])
   \<and> positive_integer_quantities (shop [\<lparr>productId = 10, quantity = Some 3\<rparr>])
   \<and> perform (shop [\<lparr>productId = 10, quantity = Some 3\<rparr>]) 7 (UpdateQuantity 10 Null)
       = shop [\<lparr>productId = 10, quantity = None\<rparr>]
   \<and> \<not> positive_integer_quantities (shop [\<lparr>productId = 10, quantity = None\<rparr>])"
  by (simp add: positive_integer_quantities_def not_integer_three_halves isInteger_numeral
        addToCart_def lamp_id_nonempty cast_lamp_id updateQuantity_def update_line_def
        save_and_respond_def save_def validate_cart_def shop_def)

text \<open>
  C4, amended. Every request (get, add, update, remove, clear) whose quantity is a number,
  null or absent keeps the invariant that every line stored in every user's cart has a
  quantity that is null or a number of at least 1: a line with quantity 0 is never stored.
  Setting the quantity of a line to 0, for a product that exists and a cart that passes
  the schema, removes that line and leaves every other line as it was. The add route
  answers \<open>InvalidArgument\<close> and writes nothing when the quantity is missing, null or not
  positive. Integrality is not enforced, but the stored numbers stay integers as long as
  the request carries an integer quantity, null or none.
\<close>

theorem quantities_at_least_one:
  "(db_valid d \<longrightarrow>
      db_valid (perform d uid r)
      \<and> (\<forall>u\<in>ran (users (perform d uid r)). \<forall>item\<in>set (cart u). quantity item \<noteq> Some 0))
   \<and> (\<forall>u p. users d uid = Some u \<and> validate_cart (cart u)
             \<and> pid \<in> productId ` set (cart u) \<and> products d pid = Some p \<longrightarrow>
        (\<exists>i<length (cart u). productId (cart u ! i) = pid
           \<and> (\<forall>j<i. productId (cart u ! j) \<noteq> pid)
           \<and> users (perform d uid (UpdateQuantity pid (Number 0))) uid
               = Some (u\<lparr>cart := take i (cart u) @ drop (Suc i) (cart u)\<rparr>)))
   \<and> (\<forall>productId_opt quantity_val.
          quantity_val = Undefined \<or> quantity_val = Null
          \<or> (\<exists>q. quantity_val = Number q \<and> q \<le> 0) \<longrightarrow>
          addToCart d uid productId_opt quantity_val = (Inl InvalidArgument, d))
   \<and> (db_integral d \<and> request_integral r \<longrightarrow> db_integral (perform d uid r))"
proof (intro conjI impI allI ballI)
  assume "db_valid d"
  then show v: "db_valid (perform d uid r)"
    by (cases r)
       (simp_all add: addToCart_valid updateQuantity_valid removeFromCart_valid clearCart_valid)
  fix u item
  assume "u \<in> ran (users (perform d uid r))" and "item \<in> set (cart u)"
  with v show "quantity item \<noteq> Some 0" by (rule db_valid_no_zero)
next
  fix u p
  assume a: "users d uid = Some u \<and> validate_cart (cart u)
             \<and> pid \<in> productId ` set (cart u) \<and> products d pid = Some p"
  then have "pid \<in> productId ` set (cart u)" by simp
  then obtain i where i: "findIndex (\<lambda>item. productId item = pid) (cart u) = Some i"
    by (rule findIndex_present)
  note first = findIndex_Some[OF i]
  from a have "validate_cart (splice1 i (cart u))" by (simp add: validate_cart_splice1)
  with a i have "users (perform d uid (UpdateQuantity pid (Number 0))) uid
                   = Some (u\<lparr>cart := take i (cart u) @ drop (Suc i) (cart u)\<rparr>)"
    by (simp add: updateQuantity_def update_line_def save_and_respond_valid splice1_def)
  with first show "\<exists>i<length (cart u). productId (cart u ! i) = pid
           \<and> (\<forall>j<i. productId (cart u ! j) \<noteq> pid)
           \<and> users (perform d uid (UpdateQuantity pid (Number 0))) uid
               = Some (u\<lparr>cart := take i (cart u) @ drop (Suc i) (cart u)\<rparr>)"
    by blast
next
  fix productId_opt quantity_val
  assume "quantity_val = Undefined \<or> quantity_val = Null
          \<or> (\<exists>q. quantity_val = Number q \<and> q \<le> 0)"
  then show "addToCart d uid productId_opt quantity_val = (Inl InvalidArgument, d)"
    by (auto simp: addToCart_def split: option.splits)
next
  assume a: "db_integral d \<and> request_integral r"
  show "db_integral (perform d uid r)"
  proof (cases r)
    case GetCart
    with a show ?thesis by simp
  next
    case (AddToCart po qv)
    with a have "isInteger q" if "qv = Number q" for q using that by simp
    with a AddToCart show ?thesis by (simp add: addToCart_integral)
  next
    case (UpdateQuantity pid' qv)
    with a have "isInteger q" if "qv = Number q" for q using that by simp
    with a UpdateQuantity show ?thesis by (simp add: updateQuantity_integral)
  next
    case (RemoveFromCart pid')
    with a show ?thesis by (simp add: removeFromCart_integral)
  next
    case ClearCart
    with a show ?thesis by (simp add: clearCart_integral)
  qed
qed

theorem quantities_at_least_one_witness:
  "db_valid (shop [\<lparr>productId = 10, quantity = Some 3\<rparr>])
   \<and> db_integral (shop [\<lparr>productId = 10, quantity = Some 3\<rparr>])
   \<and> request_integral (AddToCart (Some lamp_id) (Number 2))
   \<and> db_valid (perform (shop [\<lparr>productId = 10, quantity = Some 3\<rparr>]) 7
                 (AddToCart (Some lamp_id) (Number 2)))
   \<and> db_integral (perform (shop [\<lparr>productId = 10, quantity = Some 3\<rparr>]) 7
                    (AddToCart (Some lamp_id) (Number 2)))
   \<and> users (perform (shop [\<lparr>productId = 10, quantity = Some 3\<rparr>]) 7
              (UpdateQuantity 10 (Number 0))) 7
       = Some \<lparr>username = ''alice'', cart = []\<rparr>
   \<and> addToCart (shop [\<lparr>productId = 10, quantity = Some 3\<rparr>]) 7 (Some lamp_id) (Number 0)
       = (Inl InvalidArgument, shop [\<lparr>productId = 10, quantity = Some 3\<rparr>])"
proof -
  let ?c = "[\<lparr>productId = 10, quantity = Some 3\<rparr>]"
  have v: "db_valid (shop ?c)"
    by (simp add: shop_valid validate_cart_def)
  have i: "db_integral (shop ?c)"
    by (simp add: shop_integral cart_integral_def isInteger_def)
  have r: "request_integral (AddToCart (Some lamp_id) (Number 2))"
    by (simp add: isInteger_def)
  note t = quantities_at_least_one [of "shop ?c" 7 "AddToCart (Some lamp_id) (Number 2)" 10]
  have z: "users (perform (shop ?c) 7 (UpdateQuantity 10 (Number 0))) 7
             = Some \<lparr>username = ''alice'', cart = []\<rparr>"
    using t by (simp add: shop_user shop_product validate_cart_def)
  have g: "addToCart (shop ?c) 7 (Some lamp_id) (Number 0) = (Inl InvalidArgument, shop ?c)"
    using t by simp
  from v i r t z g show ?thesis by blast
qed

end
